theory Spec2Isabelle
  imports Main "HOL-Library.Word"
begin

section \<open>JavaScript values used by the code\<close>

text \<open>
  A JavaScript string is a sequence of UTF-16 code units. The provider constructor trims
  its name, and the white space that \<^verbatim>\<open>String.prototype.trim\<close> removes has code
  points beyond Latin-1, so strings are lists of 16-bit words; \<open>js\<close> embeds a literal.
\<close>

type_synonym jsstring = "16 word list"

definition js :: "string \<Rightarrow> jsstring" where
  "js s = map (\<lambda>c. word_of_nat (of_char c)) s"

text \<open>
  ECMAScript WhiteSpace and LineTerminator code points: TAB, LF, VT, FF, CR, SP, NBSP,
  the category Zs (U+1680, U+2000..U+200A, U+202F, U+205F, U+3000), LS, PS and the BOM.
\<close>

definition isWhiteSpace :: "16 word \<Rightarrow> bool" where
  "isWhiteSpace c \<longleftrightarrow>
     c = 0x09 \<or> c = 0x0A \<or> c = 0x0B \<or> c = 0x0C \<or> c = 0x0D \<or> c = 0x20 \<or> c = 0xA0 \<or>
     c = 0x1680 \<or> (0x2000 \<le> c \<and> c \<le> 0x200A) \<or> c = 0x2028 \<or> c = 0x2029 \<or>
     c = 0x202F \<or> c = 0x205F \<or> c = 0x3000 \<or> c = 0xFEFF"

definition trim :: "jsstring \<Rightarrow> jsstring" where
  "trim s = rev (dropWhile isWhiteSpace (rev (dropWhile isWhiteSpace s)))"

text \<open>
  Thrown values. Every error class of the repository extends \<^verbatim>\<open>Error\<close> and carries a
  message and an optional cause; the built-in \<^verbatim>\<open>Error\<close> and \<^verbatim>\<open>TypeError\<close> are what
  the SDK and the runtime throw.
\<close>

datatype error_class =
  Error | TypeError | WalletProviderError | ActionProviderError | WalletActionError

datatype thrown = Thrown (err_class: error_class) (message: jsstring) (cause: "thrown option")

definition class_name :: "error_class \<Rightarrow> jsstring" where
  "class_name c = (case c of
       Error \<Rightarrow> js ''Error''
     | TypeError \<Rightarrow> js ''TypeError''
     | WalletProviderError \<Rightarrow> js ''WalletProviderError''
     | ActionProviderError \<Rightarrow> js ''ActionProviderError''
     | WalletActionError \<Rightarrow> js ''WalletActionError'')"

text \<open>
  \<^verbatim>\<open>`${error}`\<close> calls \<^verbatim>\<open>Error.prototype.toString\<close>: the name, a colon and the
  message, or the name alone when the message is empty (no class here has an empty name).
\<close>

definition error_toString :: "thrown \<Rightarrow> jsstring" where
  "error_toString e =
     (if message e = [] then class_name (err_class e)
      else class_name (err_class e) @ js '': '' @ message e)"

text \<open>\<^verbatim>\<open>error instanceof C\<close>: \<^verbatim>\<open>WalletActionError\<close> extends \<^verbatim>\<open>ActionProviderError\<close>.\<close>

definition instanceof :: "thrown \<Rightarrow> error_class \<Rightarrow> bool" where
  "instanceof e c \<longleftrightarrow>
     c = Error \<or> err_class e = c \<or> (err_class e = WalletActionError \<and> c = ActionProviderError)"

datatype Network = Mainnet | Testnet

section \<open>Asynchronous calls\<close>

text \<open>
  An async method is a function from the history of external calls made so far to its
  outcome (a rejection is \<open>Inl\<close>) and the extended history. The collaborators (the wallet
  provider seen by an action, the RPC client seen by the wallet provider) answer a call as
  a function of the history, so any deterministic collaborator is covered, and the
  history records which calls were made.
\<close>

type_synonym ('e, 'a) io = "'e list \<Rightarrow> (thrown + 'a) \<times> 'e list"

definition io_return :: "'a \<Rightarrow> ('e, 'a) io" where
  "io_return x = (\<lambda>tr. (Inr x, tr))"

definition io_throw :: "thrown \<Rightarrow> ('e, 'a) io" where
  "io_throw e = (\<lambda>tr. (Inl e, tr))"

definition io_bind :: "('e, 'a) io \<Rightarrow> ('a \<Rightarrow> ('e, 'b) io) \<Rightarrow> ('e, 'b) io" where
  "io_bind m f = (\<lambda>tr. case m tr of (Inl e, tr') \<Rightarrow> (Inl e, tr') | (Inr x, tr') \<Rightarrow> f x tr')"

definition io_catch :: "('e, 'a) io \<Rightarrow> (thrown \<Rightarrow> ('e, 'a) io) \<Rightarrow> ('e, 'a) io" where
  "io_catch m h = (\<lambda>tr. case m tr of (Inl e, tr') \<Rightarrow> h e tr' | (Inr x, tr') \<Rightarrow> (Inr x, tr'))"

text \<open>A synchronous SDK function that may throw, used inside an async method.\<close>

definition io_lift :: "thrown + 'a \<Rightarrow> ('e, 'a) io" where
  "io_lift r = (\<lambda>tr. (r, tr))"

text \<open>A synchronous call of a collaborator whose answer may depend on what happened
  before: it reads the history and leaves it as it is.\<close>

definition io_ask :: "('e list \<Rightarrow> thrown + 'a) \<Rightarrow> ('e, 'a) io" where
  "io_ask answer = (\<lambda>tr. (answer tr, tr))"

text \<open>\<^verbatim>\<open>await collaborator.method(args)\<close>: the call is recorded, the answer depends on
  the history before it.\<close>

definition await :: "'e \<Rightarrow> ('e list \<Rightarrow> thrown + 'a) \<Rightarrow> ('e, 'a) io" where
  "await ev answer = (\<lambda>tr. (answer tr, tr @ [ev]))"

section \<open>Action providers (actionProvider.ts)\<close>

text \<open>
  An action provider has a name, its direct children, the class it was constructed from
  (\<^verbatim>\<open>provider.constructor\<close>, the key of the metadata lookup) and its implementation of the
  abstract method \<^verbatim>\<open>supportsNetwork\<close>.
\<close>

datatype 'c ActionProvider =
  ActionProvider (provider_name: jsstring) (actionProviders: "'c ActionProvider list")
    (constructor: 'c) (supportsNetwork: "Network \<Rightarrow> bool")

text \<open>
  The constructor of the abstract class, reached through \<^verbatim>\<open>super(name, children)\<close>:
  \<^verbatim>\<open>!name || name.trim() === ""\<close> throws, anything else stores the fields.
\<close>

definition new_ActionProvider ::
  "'c \<Rightarrow> (Network \<Rightarrow> bool) \<Rightarrow> jsstring \<Rightarrow> 'c ActionProvider list \<Rightarrow> thrown + 'c ActionProvider" where
  "new_ActionProvider cls supports name children =
     (if name = [] \<or> trim name = []
      then Inl (Thrown ActionProviderError (js ''Action provider name cannot be empty'') None)
      else Inr (ActionProvider name children cls supports))"

text \<open>
  \<^verbatim>\<open>Action\<close>: what \<^verbatim>\<open>getActions\<close> hands to the caller. \<open>invoke\<close> returns the promise of
  the underlying method (\<open>Inr\<close>), or throws synchronously (\<open>Inl\<close>).
\<close>

record ('a, 'r, 's) Action =
  name :: jsstring
  description :: jsstring
  schema :: 's
  invoke :: "'a \<Rightarrow> thrown + 'r"

text \<open>
  \<^verbatim>\<open>ActionMetadata\<close>, one entry of \<^verbatim>\<open>StoredActionMetadata\<close>. The source keeps a flag
  \<^verbatim>\<open>walletProvider\<close> and an untyped function \<^verbatim>\<open>invoke\<close> that is applied to
  \<^verbatim>\<open>[walletProvider, schemaArgs]\<close> when the flag is set and to \<^verbatim>\<open>[schemaArgs]\<close>
  otherwise; here the flag is the constructor of the handler, so that each function is
  applied to the arguments it is declared with. The first argument is \<^verbatim>\<open>this\<close>.
\<close>

datatype ('c, 'wp, 'a, 'r) handler =
    WithWallet "'c ActionProvider \<Rightarrow> 'wp \<Rightarrow> 'a \<Rightarrow> thrown + 'r"
  | WithoutWallet "'c ActionProvider \<Rightarrow> 'a \<Rightarrow> thrown + 'r"

record ('c, 'wp, 'a, 'r, 's) ActionMetadata =
  meta_name :: jsstring
  meta_description :: jsstring
  meta_schema :: 's
  meta_invoke :: "('c, 'wp, 'a, 'r) handler"

definition meta_walletProvider :: "('c, 'wp, 'a, 'r, 's) ActionMetadata \<Rightarrow> bool" where
  "meta_walletProvider md = (case meta_invoke md of WithWallet _ \<Rightarrow> True | WithoutWallet _ \<Rightarrow> False)"

text \<open>\<^verbatim>\<open>StoredActionMetadata\<close> is a \<^verbatim>\<open>Map\<close> from method names to metadata; its
  \<^verbatim>\<open>values()\<close> come in insertion order.\<close>

type_synonym ('c, 'wp, 'a, 'r, 's) StoredActionMetadata =
  "(jsstring \<times> ('c, 'wp, 'a, 'r, 's) ActionMetadata) list"

definition Map_values :: "('k \<times> 'v) list \<Rightarrow> 'v list" where
  "Map_values m = map snd m"

datatype console_call =
    Console_log "jsstring list"
  | Console_debug jsstring
  | Console_warn jsstring
  | Console_error jsstring thrown

text \<open>The object pushed for one metadata entry; \<open>invoke\<close> wraps a synchronous throw of
  the underlying function.\<close>

definition make_action ::
  "'wp \<Rightarrow> 'c ActionProvider \<Rightarrow> ('c, 'wp, 'a, 'r, 's) ActionMetadata \<Rightarrow> ('a, 'r, 's) Action" where
  "make_action walletProvider provider actionMetadata =
     \<lparr> name = meta_name actionMetadata,
       description = meta_description actionMetadata,
       schema = meta_schema actionMetadata,
       invoke = (\<lambda>schemaArgs.
         case (case meta_invoke actionMetadata of
                 WithWallet f \<Rightarrow> f provider walletProvider schemaArgs
               | WithoutWallet f \<Rightarrow> f provider schemaArgs) of
           Inl error \<Rightarrow> Inl (Thrown ActionProviderError
                          (js ''Failed to invoke action '' @ [0x27] @ meta_name actionMetadata @ [0x27])
                          (Some error))
         | Inr promise \<Rightarrow> Inr promise) \<rparr>"

text \<open>
  The loop of \<^verbatim>\<open>getActions\<close> over \<^verbatim>\<open>[this, ...this.actionProviders]\<close>.
  \<open>getMetadata\<close> is \<^verbatim>\<open>Reflect.getMetadata(ACTION_DECORATOR_KEY, _)\<close> on the provider's
  constructor: it may throw, answer \<^verbatim>\<open>undefined\<close> (\<open>None\<close>) or answer the stored map.
  Every value of the provider type is an instance of \<^verbatim>\<open>ActionProvider\<close>, so of the two
  diagnostics only the \<^verbatim>\<open>console.debug\<close> one can be printed.
\<close>

fun collect_actions ::
  "('c \<Rightarrow> thrown + ('c, 'wp, 'a, 'r, 's) StoredActionMetadata option) \<Rightarrow> 'wp \<Rightarrow>
   'c ActionProvider list \<Rightarrow> ('a, 'r, 's) Action list \<Rightarrow> console_call list \<Rightarrow>
   (thrown + ('a, 'r, 's) Action list) \<times> console_call list" where
  "collect_actions getMetadata walletProvider [] actions out = (Inr actions, out)"
| "collect_actions getMetadata walletProvider (provider # rest) actions out =
     (case getMetadata (constructor provider) of
        Inl error \<Rightarrow> (Inl error, out)
      | Inr None \<Rightarrow>
          collect_actions getMetadata walletProvider rest actions
            (out @ [Console_debug (js ''Note: '' @ provider_name provider @ js '' has no registered actions.'')])
      | Inr (Some actionsMetadataMap) \<Rightarrow>
          collect_actions getMetadata walletProvider rest
            (actions @ map (make_action walletProvider provider) (Map_values actionsMetadataMap)) out)"

definition getActions ::
  "('c \<Rightarrow> thrown + ('c, 'wp, 'a, 'r, 's) StoredActionMetadata option) \<Rightarrow> 'c ActionProvider \<Rightarrow> 'wp \<Rightarrow>
   console_call list \<Rightarrow> (thrown + ('a, 'r, 's) Action list) \<times> console_call list" where
  "getActions getMetadata this walletProvider out =
     (case collect_actions getMetadata walletProvider (this # actionProviders this) [] out of
        (Inl error, out') \<Rightarrow> (Inl (Thrown ActionProviderError (js ''Failed to get actions'') (Some error)), out')
      | (Inr actions, out') \<Rightarrow> (Inr actions, out'))"

section \<open>Wallet providers as seen by actions and by the agent\<close>

text \<open>
  The abstract class \<^verbatim>\<open>WalletProvider\<close>. The getters are plain values; each async method
  answers as a function of the calls made on the provider so far, which are recorded as
  \<open>wp_call\<close>s. Balances are \<^verbatim>\<open>bigint\<close>s.
\<close>

datatype wp_call =
  Call_getBalance | Call_nativeTransfer jsstring jsstring | Call_isDeployed | Call_deploy

record WalletProvider =
  getAddress :: jsstring
  getNetwork :: Network
  getName :: jsstring
  getBalance :: "wp_call list \<Rightarrow> thrown + int"
  nativeTransfer :: "jsstring \<Rightarrow> jsstring \<Rightarrow> wp_call list \<Rightarrow> thrown + jsstring"
  isDeployed :: "wp_call list \<Rightarrow> thrown + bool"
  deploy :: "wp_call list \<Rightarrow> thrown + jsstring"
  getWorkchain :: int

definition Network_string :: "Network \<Rightarrow> jsstring" where
  "Network_string n = (case n of Mainnet \<Rightarrow> js ''mainnet'' | Testnet \<Rightarrow> js ''testnet'')"

section \<open>The agent (agent/index.ts)\<close>

record ('c) TonAgent =
  walletProvider :: WalletProvider
  agent_actionProviders :: "'c ActionProvider list"

text \<open>\<^verbatim>\<open>Array.prototype.join\<close>.\<close>

fun join :: "jsstring \<Rightarrow> jsstring list \<Rightarrow> jsstring" where
  "join sep [] = []"
| "join sep [x] = x"
| "join sep (x # y # ys) = x @ sep @ join sep (y # ys)"

text \<open>The \<^verbatim>\<open>for\<close> loop of \<^verbatim>\<open>TonAgent.getActions\<close>, with its two local arrays.\<close>

fun scan_providers ::
  "('c \<Rightarrow> thrown + ('c, WalletProvider, 'a, 'r, 's) StoredActionMetadata option) \<Rightarrow> WalletProvider \<Rightarrow>
   'c ActionProvider list \<Rightarrow> ('a, 'r, 's) Action list \<Rightarrow> jsstring list \<Rightarrow> console_call list \<Rightarrow>
   (thrown + ('a, 'r, 's) Action list \<times> jsstring list) \<times> console_call list" where
  "scan_providers getMetadata wp [] actions unsupported out = (Inr (actions, unsupported), out)"
| "scan_providers getMetadata wp (actionProvider # rest) actions unsupported out =
     (if supportsNetwork actionProvider (getNetwork wp)
      then (case getActions getMetadata actionProvider wp out of
              (Inl error, out') \<Rightarrow> (Inl error, out')
            | (Inr provided, out') \<Rightarrow>
                scan_providers getMetadata wp rest (actions @ provided) unsupported out')
      else scan_providers getMetadata wp rest actions (unsupported @ [provider_name actionProvider]) out)"

definition unsupported_warning :: "jsstring list \<Rightarrow> Network \<Rightarrow> console_call list" where
  "unsupported_warning unsupported network =
     (if length unsupported > 0
      then [Console_log [js ''Warning: The following action providers are not supported on the current network and will be unavailable: ''
                          @ join (js '', '') unsupported],
            Console_log [js ''Current network:'', Network_string network]]
      else [])"

definition TonAgent_getActions ::
  "('c \<Rightarrow> thrown + ('c, WalletProvider, 'a, 'r, 's) StoredActionMetadata option) \<Rightarrow> 'c TonAgent \<Rightarrow>
   (thrown + ('a, 'r, 's) Action list) \<times> console_call list" where
  "TonAgent_getActions getMetadata agent =
     (case scan_providers getMetadata (walletProvider agent) (agent_actionProviders agent) [] [] [] of
        (Inl error, out) \<Rightarrow> (Inl error, out)
      | (Inr (actions, unsupported), out) \<Rightarrow>
          (Inr actions, out @ unsupported_warning unsupported (getNetwork (walletProvider agent))))"

section \<open>The wallet action provider (walletActionProvider.ts)\<close>

text \<open>
  The arguments an action is invoked with: an object whose \<^verbatim>\<open>to\<close> and \<^verbatim>\<open>value\<close> may be
  missing (\<^verbatim>\<open>undefined\<close>), since \<^verbatim>\<open>invoke\<close> does not validate them. The two schemas live
  in \<^verbatim>\<open>./schemas\<close> and are only passed along.
\<close>

record schema_args =
  arg_to :: "jsstring option"
  arg_value :: "jsstring option"

datatype wallet_schema = GetWalletDetailsSchema | NativeTransferSchema

text \<open>\<^verbatim>\<open>`${n}`\<close> for a \<^verbatim>\<open>bigint\<close>: its decimal digits.\<close>

fun decimal :: "nat \<Rightarrow> jsstring" where
  "decimal n = (if n < 10 then [0x30 + word_of_nat n] else decimal (n div 10) @ [0x30 + word_of_nat (n mod 10)])"

declare decimal.simps [simp del]

definition bigint_toString :: "int \<Rightarrow> jsstring" where
  "bigint_toString i = (if i < 0 then js ''-'' @ decimal (nat (- i)) else decimal (nat i))"

text \<open>
  \<^verbatim>\<open>getWalletDetails\<close>. \<open>toFixed9\<close> stands for the floating-point expression
  \<^verbatim>\<open>(Number(balance) / 1_000_000_000).toFixed(9)\<close>.
\<close>

definition getWalletDetails ::
  "(int \<Rightarrow> jsstring) \<Rightarrow> WalletProvider \<Rightarrow> schema_args \<Rightarrow> (wp_call, jsstring) io" where
  "getWalletDetails toFixed9 wp _ =
     io_catch
       (let address = getAddress wp in
        io_bind (await Call_getBalance (getBalance wp)) (\<lambda>balance.
        let name = getName wp; network = getNetwork wp in
        io_bind (await Call_isDeployed (isDeployed wp)) (\<lambda>isDeployed.
        let formattedBalance = toFixed9 balance in
        io_return (join [0x0A]
          [js ''## Wallet Details'',
           js ''- **Provider**: '' @ name,
           js ''- **Address**: `'' @ address @ js ''`'',
           js ''- **Network**: '' @ Network_string network,
           js ''- **TON Balance**: '' @ formattedBalance @ js '' TON'',
           js ''- **Deployed**: '' @ (if isDeployed then js ''Yes'' else js ''No'')]))))
       (\<lambda>error. io_throw (Thrown WalletActionError (js ''Failed to get wallet details'') (Some error)))"

text \<open>
  \<^verbatim>\<open>transferTon\<close>. \<^verbatim>\<open>!args.to || !args.value\<close> holds when either is \<^verbatim>\<open>undefined\<close> or
  the empty string.
\<close>

definition transferTon :: "WalletProvider \<Rightarrow> schema_args \<Rightarrow> (wp_call, jsstring) io" where
  "transferTon wp args =
     io_catch
       (case (arg_to args, arg_value args) of
          (Some to, Some val) \<Rightarrow>
            if to = [] \<or> val = []
            then io_throw (Thrown WalletActionError
                             (js ''Destination address and transfer amount are required'') None)
            else
              io_bind (await Call_isDeployed (isDeployed wp)) (\<lambda>isDeployed.
              if \<not> isDeployed
              then io_throw (Thrown WalletActionError
                               (js ''Wallet is not deployed. Please deploy the wallet first.'') None)
              else
                io_bind (await Call_getBalance (getBalance wp)) (\<lambda>currentBalance.
                let transferAmount = val in
                io_bind (await (Call_nativeTransfer to transferAmount) (nativeTransfer wp to transferAmount))
                  (\<lambda>txHash.
                io_return (join [0x0A]
                  [js ''## Transfer Successful'',
                   js ''- **Transaction Hash**: `'' @ txHash @ js ''`'',
                   js ''- **Current Balance**: `'' @ bigint_toString currentBalance @ js ''`'',
                   js ''- **Amount**: '' @ transferAmount @ js '' TON'',
                   js ''- **Recipient**: `'' @ to @ js ''`'']))))
        | _ \<Rightarrow> io_throw (Thrown WalletActionError
                          (js ''Destination address and transfer amount are required'') None))
       (\<lambda>error. io_throw (Thrown WalletActionError (js ''Failed to transfer TON'') (Some error)))"

definition ensureWalletDeployed :: "WalletProvider \<Rightarrow> schema_args \<Rightarrow> (wp_call, jsstring) io" where
  "ensureWalletDeployed wp _ =
     io_catch
       (io_bind (await Call_isDeployed (isDeployed wp)) (\<lambda>isDeployed.
        if isDeployed then io_return (js ''Wallet is already deployed and ready to use.'')
        else
          io_bind (await Call_deploy (deploy wp)) (\<lambda>txHash.
          io_return (join [0x0A]
            [js ''## Wallet Deployment Initiated'',
             js ''- **Transaction Hash**: `'' @ txHash @ js ''`'',
             js ''- The wallet deployment has been initiated. Please wait for confirmation.'']))))
       (\<lambda>error. io_throw (Thrown WalletActionError (js ''Failed to deploy wallet'') (Some error)))"

text \<open>The classes that extend \<^verbatim>\<open>ActionProvider\<close>: the one of this repository and any
  other.\<close>

datatype provider_class = WalletActionProvider | OtherProvider nat

text \<open>\<^verbatim>\<open>new WalletActionProvider(childProviders)\<close>, whose \<^verbatim>\<open>supportsNetwork\<close> answers
  \<^verbatim>\<open>true\<close>, and the factory \<^verbatim>\<open>createWalletActionProvider\<close>.\<close>

definition new_WalletActionProvider ::
  "provider_class ActionProvider list \<Rightarrow> thrown + provider_class ActionProvider" where
  "new_WalletActionProvider childProviders =
     new_ActionProvider WalletActionProvider (\<lambda>network. True) (js ''wallet'') childProviders"

definition createWalletActionProvider ::
  "provider_class ActionProvider list \<Rightarrow> thrown + provider_class ActionProvider" where
  "createWalletActionProvider childProviders = new_WalletActionProvider childProviders"

section \<open>The action registry\<close>

text \<open>
  Modelled from the spec: the action registry of \<^verbatim>\<open>actionDecorator.ts\<close> (the decorator
  \<^verbatim>\<open>CreateAction\<close>, \<^verbatim>\<open>ACTION_DECORATOR_KEY\<close> and \<^verbatim>\<open>StoredActionMetadata\<close>) is not among
  the sources. The spec (4.1) has \<open>register(ownerType, methodName, metadata)\<close> attach the
  metadata, keyed by method name, to a per-type mapping, a second registration of a method
  name overwriting the first, and \<open>getRegistered(ownerType)\<close> return the mapping of a type or
  signal its absence; the metadata holds the declared name, description and schema, whether
  the method takes the wallet provider, and the method. The mapping keeps insertion order,
  as the \<^verbatim>\<open>Map\<close> that \<^verbatim>\<open>getActions\<close> iterates does.
\<close>

fun Map_set :: "'k \<Rightarrow> 'v \<Rightarrow> ('k \<times> 'v) list \<Rightarrow> ('k \<times> 'v) list" where
  "Map_set k v [] = [(k, v)]"
| "Map_set k v ((k', v') # m) = (if k' = k then (k, v) # m else (k', v') # Map_set k v m)"

definition register ::
  "'c \<Rightarrow> jsstring \<Rightarrow> ('c, 'wp, 'a, 'r, 's) ActionMetadata \<Rightarrow>
   ('c \<rightharpoonup> ('c, 'wp, 'a, 'r, 's) StoredActionMetadata) \<Rightarrow>
   ('c \<rightharpoonup> ('c, 'wp, 'a, 'r, 's) StoredActionMetadata)" where
  "register ownerType methodName metadata registry =
     registry(ownerType \<mapsto>
       Map_set methodName metadata (case registry ownerType of None \<Rightarrow> [] | Some m \<Rightarrow> m))"

definition getRegistered ::
  "('c \<rightharpoonup> ('c, 'wp, 'a, 'r, 's) StoredActionMetadata) \<Rightarrow> 'c \<Rightarrow>
   ('c, 'wp, 'a, 'r, 's) StoredActionMetadata option" where
  "getRegistered registry ownerType = registry ownerType"

text \<open>Modelled from the spec: the lookup of \<^verbatim>\<open>getActions\<close> answered by the registry; it
  does not throw.\<close>

definition Reflect_getMetadata ::
  "('c \<rightharpoonup> ('c, 'wp, 'a, 'r, 's) StoredActionMetadata) \<Rightarrow> 'c \<Rightarrow>
   thrown + ('c, 'wp, 'a, 'r, 's) StoredActionMetadata option" where
  "Reflect_getMetadata registry ownerType = Inr (getRegistered registry ownerType)"

text \<open>Modelled from the spec: \<^verbatim>\<open>@CreateAction({name, description, schema})\<close> on a method
  that takes the wallet provider first registers the method under its own name.\<close>

definition CreateAction ::
  "jsstring \<Rightarrow> jsstring \<Rightarrow> 's \<Rightarrow> 'c \<Rightarrow> jsstring \<Rightarrow> ('wp \<Rightarrow> 'a \<Rightarrow> 'r) \<Rightarrow>
   ('c \<rightharpoonup> ('c, 'wp, 'a, 'r, 's) StoredActionMetadata) \<Rightarrow>
   ('c \<rightharpoonup> ('c, 'wp, 'a, 'r, 's) StoredActionMetadata)" where
  "CreateAction nm descr sch ownerType methodName method registry =
     register ownerType methodName
       \<lparr> meta_name = nm, meta_description = descr, meta_schema = sch,
         meta_invoke = WithWallet (\<lambda>this wp args. Inr (method wp args)) \<rparr>
       registry"

text \<open>The three decorated methods of \<^verbatim>\<open>WalletActionProvider\<close>, in the order of their
  declaration; \<^verbatim>\<open>supportsNetwork\<close>, declared between the second and the third, is not
  decorated.\<close>

definition WalletActionProvider_decorators ::
  "(int \<Rightarrow> jsstring) \<Rightarrow>
   (provider_class \<rightharpoonup> (provider_class, WalletProvider, schema_args, (wp_call, jsstring) io, wallet_schema) StoredActionMetadata) \<Rightarrow>
   (provider_class \<rightharpoonup> (provider_class, WalletProvider, schema_args, (wp_call, jsstring) io, wallet_schema) StoredActionMetadata)" where
  "WalletActionProvider_decorators toFixed9 registry =
     CreateAction (js ''ensure_wallet_deployed'')
       (join [0x0A]
          [[],
           js ''        Checks if the wallet is deployed and deploys it if not.'',
           js ''        - Returns the current deployment status'',
           js ''        - If deployment is needed, initiates the deployment and returns the transaction hash'',
           js ''        ''])
       GetWalletDetailsSchema WalletActionProvider (js ''ensureWalletDeployed'') ensureWalletDeployed
    (CreateAction (js ''transfer_ton'')
       (join [0x0A]
          [[],
           js ''        Transfer TON tokens to another address.'',
           js ''        - Requires a connected wallet with sufficient balance'',
           js ''        - Amount is specified in TON units (not nano)'',
           js ''        - Returns transaction hash when successful'',
           js ''        ''])
       NativeTransferSchema WalletActionProvider (js ''transferTon'') transferTon
    (CreateAction (js ''get_wallet_details'')
       (join [0x0A]
          [[],
           js ''        This tool will return the details of the connected wallet including:'',
           js ''        - Wallet address'',
           js ''        - Network information'',
           js ''        - Native TON balance'',
           js ''        - Wallet provider name and type'',
           js ''        - Deployment status'',
           js ''        ''])
       GetWalletDetailsSchema WalletActionProvider (js ''getWalletDetails'') (getWalletDetails toFixed9)
     registry))"

section \<open>The TON wallet provider (wallet-providers/walletProvider.ts)\<close>

text \<open>
  The SDK (\<^verbatim>\<open>@ton/ton\<close>, \<^verbatim>\<open>@ton/crypto\<close>) is a collaborator. Its values are kept as far
  as the code reads them: a key pair, an address, a version-4 wallet contract that knows
  its address, the state of an account, the message built by \<^verbatim>\<open>internal\<close> around the
  empty cell \<^verbatim>\<open>beginCell().endCell()\<close>, and the requests handed to \<^verbatim>\<open>sendTransfer\<close> and
  \<^verbatim>\<open>deploy\<close>. Workchain ids and sequence numbers are integers, amounts are \<^verbatim>\<open>bigint\<close>s.
\<close>

type_synonym bytes = "8 word list"

record KeyPair =
  publicKey :: bytes
  secretKey :: bytes

record Address =
  workChain :: int
  hash :: bytes

record WalletContractV4 =
  wallet_workchain :: int
  wallet_publicKey :: bytes
  address :: Address

datatype account_state = Uninit | Active | Frozen

datatype cell = EmptyCell

record internal_message =
  msg_to :: Address
  msg_value :: int
  msg_bounce :: bool
  msg_body :: cell

record transfer_request =
  transfer_seqno :: int
  transfer_secretKey :: bytes
  transfer_messages :: "internal_message list"
  transfer_sendMode :: int

record deploy_request =
  deploy_seqno :: int
  deploy_secretKey :: bytes

definition PAY_GAS_SEPARATELY :: int where "PAY_GAS_SEPARATELY = 1"
definition IGNORE_ERRORS :: int where "IGNORE_ERRORS = 2"

text \<open>What the provider awaits from the SDK, and what it prints.\<close>

datatype sdk_call =
    Mnemonic_to_private_key "jsstring list"
  | Get_balance
  | Get_seqno
  | Send_transfer transfer_request
  | Deploy_wallet deploy_request
  | Get_state Address
  | Console console_call

text \<open>
  \<^verbatim>\<open>TonClient\<close> and the handle returned by \<^verbatim>\<open>tonClient.open(wallet)\<close>: each RPC answers
  as a function of the calls made so far. The answer of \<^verbatim>\<open>sendTransfer\<close> and of
  \<^verbatim>\<open>deploy\<close> is kept as what \<^verbatim>\<open>result.hash().toString("hex")\<close> evaluates to, which
  throws when the result has no hash.
\<close>

type_synonym send_result = "thrown + jsstring"

record TonClient =
  provider_getState :: "sdk_call list \<Rightarrow> Address \<Rightarrow> thrown + account_state"

record OpenedContract =
  contract_getBalance :: "sdk_call list \<Rightarrow> thrown + int"
  contract_getSeqno :: "sdk_call list \<Rightarrow> thrown + int"
  contract_sendTransfer :: "sdk_call list \<Rightarrow> transfer_request \<Rightarrow> thrown + send_result"
  contract_deploy :: "sdk_call list \<Rightarrow> deploy_request \<Rightarrow> thrown + send_result"

text \<open>
  The functions of the SDK that work without a network: constructors, address parsing and
  printing, \<^verbatim>\<open>toNano\<close>, and the key derivation. The key derivation
  (\<^verbatim>\<open>mnemonicToPrivateKey\<close>, awaited) and the wallet constructor
  (\<^verbatim>\<open>WalletContractV4.create\<close>), from which the address of a wallet comes, answer as
  functions of the history like the RPCs: nothing in the types makes them repeatable.
\<close>

record ton_sdk =
  new_TonClient :: "jsstring \<Rightarrow> jsstring \<Rightarrow> thrown + TonClient"
  mnemonicToPrivateKey :: "sdk_call list \<Rightarrow> jsstring list \<Rightarrow> thrown + KeyPair"
  WalletContractV4_create :: "sdk_call list \<Rightarrow> int \<Rightarrow> bytes \<Rightarrow> thrown + WalletContractV4"
  TonClient_open :: "TonClient \<Rightarrow> WalletContractV4 \<Rightarrow> thrown + OpenedContract"
  Address_parse :: "jsstring \<Rightarrow> thrown + Address"
  Address_toString :: "Address \<Rightarrow> jsstring"
  toNano :: "jsstring \<Rightarrow> thrown + int"

text \<open>\<^verbatim>\<open>WalletProviderConfig\<close>; the constructor checks four of the fields for presence.\<close>

record WalletProviderConfig =
  config_wallet :: "WalletContractV4 option"
  config_contract :: "OpenedContract option"
  config_tonClient :: "TonClient option"
  config_keyPair :: "KeyPair option"
  config_network :: "Network option"
  config_workchain :: "int option"

record TonWalletProvider =
  wallet :: WalletContractV4
  contract :: OpenedContract
  tonClient :: TonClient
  keyPair :: KeyPair
  network :: Network
  workchain :: int

text \<open>The constructor: \<^verbatim>\<open>config.network || "mainnet"\<close> and \<^verbatim>\<open>config.workchain || 0\<close>.\<close>

definition new_TonWalletProvider :: "WalletProviderConfig \<Rightarrow> thrown + TonWalletProvider" where
  "new_TonWalletProvider config =
     (case (config_wallet config, config_contract config, config_tonClient config, config_keyPair config) of
        (Some w, Some c, Some t, Some k) \<Rightarrow>
          Inr \<lparr> wallet = w, contract = c, tonClient = t, keyPair = k,
                network = (case config_network config of None \<Rightarrow> Mainnet | Some n \<Rightarrow> n),
                workchain = (case config_workchain config of None \<Rightarrow> 0
                             | Some n \<Rightarrow> if n = 0 then 0 else n) \<rparr>
      | _ \<Rightarrow> Inl (Thrown Error (js ''Missing required configuration for TonWalletProvider'') None))"

definition TonWalletProvider_getAddress :: "ton_sdk \<Rightarrow> TonWalletProvider \<Rightarrow> jsstring" where
  "TonWalletProvider_getAddress sdk this = Address_toString sdk (address (wallet this))"

definition TonWalletProvider_getNetwork :: "TonWalletProvider \<Rightarrow> Network" where
  "TonWalletProvider_getNetwork this = network this"

definition TonWalletProvider_getName :: "TonWalletProvider \<Rightarrow> jsstring" where
  "TonWalletProvider_getName this = js ''TON Wallet V4''"

definition TonWalletProvider_getWorkchain :: "TonWalletProvider \<Rightarrow> int" where
  "TonWalletProvider_getWorkchain this = workchain this"

definition console_error :: "jsstring \<Rightarrow> thrown \<Rightarrow> (sdk_call, unit) io" where
  "console_error label error = (\<lambda>tr. (Inr (), tr @ [Console (Console_error label error)]))"

definition TonWalletProvider_getBalance :: "TonWalletProvider \<Rightarrow> (sdk_call, int) io" where
  "TonWalletProvider_getBalance this =
     io_catch (await Get_balance (contract_getBalance (contract this)))
       (\<lambda>error. io_bind (console_error (js ''Failed to get wallet balance:'') error) (\<lambda>_.
          io_throw (Thrown Error (js ''Failed to get wallet balance: '' @ error_toString error) None)))"

definition TonWalletProvider_nativeTransfer ::
  "ton_sdk \<Rightarrow> TonWalletProvider \<Rightarrow> jsstring \<Rightarrow> jsstring \<Rightarrow> (sdk_call, jsstring) io" where
  "TonWalletProvider_nativeTransfer sdk this to val =
     io_catch
       (io_bind (io_lift (Address_parse sdk to)) (\<lambda>destinationAddress.
        io_bind (io_lift (toNano sdk val)) (\<lambda>amount.
        io_bind (await Get_seqno (contract_getSeqno (contract this))) (\<lambda>seqno.
        let transfer = \<lparr> msg_to = destinationAddress, msg_value = amount, msg_bounce = False,
                          msg_body = EmptyCell \<rparr>;
            request = \<lparr> transfer_seqno = seqno, transfer_secretKey = secretKey (keyPair this),
                         transfer_messages = [transfer],
                         transfer_sendMode = PAY_GAS_SEPARATELY + IGNORE_ERRORS \<rparr> in
        io_bind (await (Send_transfer request) (\<lambda>tr. contract_sendTransfer (contract this) tr request))
          (\<lambda>result. io_lift result)))))
       (\<lambda>error. io_bind (console_error (js ''Failed to transfer TON:'') error) (\<lambda>_.
          io_throw (Thrown Error (js ''Failed to transfer TON: '' @ error_toString error) None)))"

definition TonWalletProvider_isDeployed :: "ton_sdk \<Rightarrow> TonWalletProvider \<Rightarrow> (sdk_call, bool) io" where
  "TonWalletProvider_isDeployed sdk this =
     io_catch
       (let addr = TonWalletProvider_getAddress sdk this in
        io_bind (io_lift (Address_parse sdk addr)) (\<lambda>toAddress.
        io_bind (await (Get_state toAddress) (\<lambda>tr. provider_getState (tonClient this) tr toAddress))
          (\<lambda>info. io_return (info = Active))))
       (\<lambda>error. io_bind (console_error (js ''Failed to check if wallet is deployed:'') error) (\<lambda>_.
          io_throw (Thrown Error (js ''Failed to check if wallet is deployed: '' @ error_toString error) None)))"

definition TonWalletProvider_deploy :: "ton_sdk \<Rightarrow> TonWalletProvider \<Rightarrow> (sdk_call, jsstring) io" where
  "TonWalletProvider_deploy sdk this =
     io_catch
       (io_bind (TonWalletProvider_isDeployed sdk this) (\<lambda>isDeployed.
        if isDeployed then io_return (js ''Wallet is already deployed'')
        else
          io_bind (await Get_seqno (contract_getSeqno (contract this))) (\<lambda>seqno.
          let request = \<lparr> deploy_seqno = seqno, deploy_secretKey = secretKey (keyPair this) \<rparr> in
          io_bind (await (Deploy_wallet request) (\<lambda>tr. contract_deploy (contract this) tr request))
            (\<lambda>result. io_lift result))))
       (\<lambda>error. io_bind (console_error (js ''Failed to deploy wallet:'') error) (\<lambda>_.
          io_throw (Thrown Error (js ''Failed to deploy wallet: '' @ error_toString error) None)))"

text \<open>\<^verbatim>\<open>Config\<close> of the agent, all fields optional (\<^verbatim>\<open>Partial<Config>\<close>), and
  \<^verbatim>\<open>String.prototype.split\<close> at a single separator.\<close>

record Config =
  TONCENTER_API_URL :: "jsstring option"
  TONCENTER_API_KEY :: "jsstring option"
  MNEMONIC_PHRASE :: "jsstring option"
  WORKCHAIN :: "int option"
  NETWORK :: "Network option"

fun split :: "16 word \<Rightarrow> jsstring \<Rightarrow> jsstring list" where
  "split sep [] = [[]]"
| "split sep (c # cs) =
     (if c = sep then [] # split sep cs
      else (case split sep cs of [] \<Rightarrow> [[c]] | w # ws \<Rightarrow> (c # w) # ws))"

text \<open>
  The factory \<^verbatim>\<open>WalletProvider.configureWithWallet\<close>. The two checks come first; a
  \<^verbatim>\<open>WalletProviderError\<close> passes through the \<^verbatim>\<open>catch\<close>, anything else is wrapped.
  The locals \<^verbatim>\<open>tonClient\<close>, \<^verbatim>\<open>keyPair\<close>, \<^verbatim>\<open>workchain\<close>, \<^verbatim>\<open>wallet\<close> and
  \<^verbatim>\<open>contract\<close> are \<open>client\<close>, \<open>keys\<close>, \<open>wc\<close>, \<open>w\<close> and \<open>opened\<close> here, the
  source's names being those of the provider's fields.
\<close>

definition configureWithWallet :: "ton_sdk \<Rightarrow> Config \<Rightarrow> (sdk_call, TonWalletProvider) io" where
  "configureWithWallet sdk config =
     io_catch
       (case (TONCENTER_API_URL config, TONCENTER_API_KEY config) of
          (Some url, Some key) \<Rightarrow>
            if url = [] \<or> key = []
            then io_throw (Thrown WalletProviderError
                             (js ''TONCENTER_API_URL and TONCENTER_API_KEY are required'') None)
            else
              (case MNEMONIC_PHRASE config of
                 Some mnemonicPhrase \<Rightarrow>
                   if mnemonicPhrase = []
                   then io_throw (Thrown WalletProviderError (js ''MNEMONIC_PHRASE is required'') None)
                   else
                     io_bind (io_lift (new_TonClient sdk url key)) (\<lambda>client.
                     let mnemonic = map trim (split 0x20 mnemonicPhrase) in
                     io_bind (await (Mnemonic_to_private_key mnemonic) (\<lambda>tr. mnemonicToPrivateKey sdk tr mnemonic))
                       (\<lambda>keys.
                     let wc = (case WORKCHAIN config of None \<Rightarrow> 0 | Some n \<Rightarrow> if n = 0 then 0 else n) in
                     io_bind (io_ask (\<lambda>tr. WalletContractV4_create sdk tr wc (publicKey keys))) (\<lambda>w.
                     io_bind (io_lift (TonClient_open sdk client w)) (\<lambda>opened.
                     io_lift (new_TonWalletProvider
                       \<lparr> config_wallet = Some w, config_contract = Some opened,
                         config_tonClient = Some client, config_keyPair = Some keys,
                         config_network = NETWORK config, config_workchain = Some wc \<rparr>)))))
               | None \<Rightarrow> io_throw (Thrown WalletProviderError (js ''MNEMONIC_PHRASE is required'') None))
        | _ \<Rightarrow> io_throw (Thrown WalletProviderError
                          (js ''TONCENTER_API_URL and TONCENTER_API_KEY are required'') None))
       (\<lambda>error. if instanceof error WalletProviderError then io_throw error
                else io_throw (Thrown WalletProviderError (js ''Failed to configure wallet provider'')
                                 (Some error)))"

section \<open>Notions used to state the properties\<close>

text \<open>\<^verbatim>\<open>!x\<close> for an optional string: \<^verbatim>\<open>undefined\<close> or the empty string.\<close>

definition falsy :: "jsstring option \<Rightarrow> bool" where
  "falsy x \<longleftrightarrow> x = None \<or> x = Some []"

text \<open>What one provider adds to the list of \<^verbatim>\<open>getActions\<close> when no lookup throws: one
  action per stored entry, nothing when the lookup signals absence.\<close>

definition registered_actions ::
  "('c \<Rightarrow> thrown + ('c, 'wp, 'a, 'r, 's) StoredActionMetadata option) \<Rightarrow> 'wp \<Rightarrow>
   'c ActionProvider \<Rightarrow> ('a, 'r, 's) Action list" where
  "registered_actions getMetadata wp provider =
     (case getMetadata (constructor provider) of
        Inr (Some m) \<Rightarrow> map (make_action wp provider) (Map_values m)
      | Inr None \<Rightarrow> []
      | Inl error \<Rightarrow> [])"

text \<open>The three required fields of \<^verbatim>\<open>Config\<close>, their names, and
  \<^verbatim>\<open>String.prototype.includes\<close> to say that a message names one.\<close>

datatype config_field = Field_URL | Field_KEY | Field_MNEMONIC

definition field_name :: "config_field \<Rightarrow> jsstring" where
  "field_name f = (case f of Field_URL \<Rightarrow> js ''TONCENTER_API_URL''
     | Field_KEY \<Rightarrow> js ''TONCENTER_API_KEY'' | Field_MNEMONIC \<Rightarrow> js ''MNEMONIC_PHRASE'')"

definition field_value :: "Config \<Rightarrow> config_field \<Rightarrow> jsstring option" where
  "field_value config f = (case f of Field_URL \<Rightarrow> TONCENTER_API_URL config
     | Field_KEY \<Rightarrow> TONCENTER_API_KEY config | Field_MNEMONIC \<Rightarrow> MNEMONIC_PHRASE config)"

fun string_includes :: "jsstring \<Rightarrow> jsstring \<Rightarrow> bool" where
  "string_includes [] s = (s = [])"
| "string_includes (c # cs) s = (take (length s) (c # cs) = s \<or> string_includes cs s)"

text \<open>
  A test double of the SDK, for concrete runs: addresses print as \<open>EQ\<close> followed by their
  hash and parse back from that form, any other string is rejected as the SDK does; every
  account is active; the key derived from a mnemonic is its number of words.
\<close>

definition test_client :: TonClient where
  "test_client = \<lparr> provider_getState = (\<lambda>tr a. Inr Active) \<rparr>"

definition test_contract :: OpenedContract where
  "test_contract =
     \<lparr> contract_getBalance = (\<lambda>tr. Inr 5),
       contract_getSeqno = (\<lambda>tr. Inr (int (length tr))),
       contract_sendTransfer = (\<lambda>tr request. Inr (Inr (js ''ab12''))),
       contract_deploy = (\<lambda>tr request. Inr (Inr (js ''cd34''))) \<rparr>"

definition test_sdk :: ton_sdk where
  "test_sdk =
     \<lparr> new_TonClient = (\<lambda>endpoint apiKey. Inr test_client),
       mnemonicToPrivateKey = (\<lambda>tr mnemonic.
          Inr \<lparr> publicKey = [word_of_nat (length mnemonic)], secretKey = [7] \<rparr>),
       WalletContractV4_create = (\<lambda>tr wc pk.
          Inr \<lparr> wallet_workchain = wc, wallet_publicKey = pk, address = \<lparr> workChain = wc, hash = pk \<rparr> \<rparr>),
       TonClient_open = (\<lambda>client w. Inr test_contract),
       Address_parse = (\<lambda>s.
          if take 2 s = js ''EQ'' then Inr \<lparr> workChain = 0, hash = map ucast (drop 2 s) \<rparr>
          else Inl (Thrown Error (js ''Unknown address type: '' @ s) None)),
       Address_toString = (\<lambda>a. js ''EQ'' @ map ucast (hash a)),
       toNano = (\<lambda>s. Inr 1000000000) \<rparr>"

text \<open>
  Modelled from the spec: the key derivation and the wallet constructor belong to the SDK,
  which is not among the sources. The spec has the mnemonic derive the signing key pair
  deterministically (glossary) and the wallet contract be constructed deterministically
  from the public key and the workchain (4.3): their answers depend on their arguments
  only, not on what happened before.
\<close>

definition sdk_deterministic :: "ton_sdk \<Rightarrow> bool" where
  "sdk_deterministic sdk \<longleftrightarrow>
     (\<forall>tr tr' mnemonic. mnemonicToPrivateKey sdk tr mnemonic = mnemonicToPrivateKey sdk tr' mnemonic)
     \<and> (\<forall>tr tr' wc pk. WalletContractV4_create sdk tr wc pk = WalletContractV4_create sdk tr' wc pk)"

text \<open>A double whose key derivation is not repeatable: the key it answers grows with the
  history.\<close>

definition drifting_sdk :: ton_sdk where
  "drifting_sdk = test_sdk \<lparr> mnemonicToPrivateKey := (\<lambda>tr mnemonic.
      Inr \<lparr> publicKey = [word_of_nat (length tr)], secretKey = [7] \<rparr>) \<rparr>"

definition test_provider :: TonWalletProvider where
  "test_provider =
     \<lparr> wallet = \<lparr> wallet_workchain = 0, wallet_publicKey = [3], address = \<lparr> workChain = 0, hash = [3] \<rparr> \<rparr>,
       contract = test_contract, tonClient = test_client,
       keyPair = \<lparr> publicKey = [3], secretKey = [7] \<rparr>,
       network = Testnet, workchain = 0 \<rparr>"

definition test_config :: Config where
  "test_config =
     \<lparr> TONCENTER_API_URL = Some (js ''https://rpc''), TONCENTER_API_KEY = Some (js ''k''),
       MNEMONIC_PHRASE = Some (js ''abandon ability able''), WORKCHAIN = None, NETWORK = Some Testnet \<rparr>"

section \<open>Properties\<close>

lemma trim_empty_iff: "trim s = [] \<longleftrightarrow> (\<forall>c \<in> set s. isWhiteSpace c)"
proof
  assume "trim s = []"
  then have "dropWhile isWhiteSpace (rev (dropWhile isWhiteSpace s)) = []"
    by (simp add: trim_def)
  then have "\<forall>c \<in> set (dropWhile isWhiteSpace s). isWhiteSpace c"
    by simp
  moreover have "dropWhile isWhiteSpace s \<noteq> [] \<Longrightarrow> \<not> isWhiteSpace (hd (dropWhile isWhiteSpace s))"
    by (rule hd_dropWhile)
  ultimately have "dropWhile isWhiteSpace s = []"
    by (cases "dropWhile isWhiteSpace s") auto
  then show "\<forall>c \<in> set s. isWhiteSpace c"
    by simp
next
  assume "\<forall>c \<in> set s. isWhiteSpace c"
  then have "dropWhile isWhiteSpace s = []"
    by simp
  then show "trim s = []"
    by (simp only: trim_def rev.simps dropWhile.simps)
qed

text \<open>
  C7. Constructing an action provider fails with an ActionProviderError exactly when the
  name is empty or consists only of white space; for every other name the construction
  succeeds and the provider's name is the given string.
\<close>

theorem C7_constructor_name_validation:
  "((\<forall>c \<in> set nm. isWhiteSpace c) \<longrightarrow>
      new_ActionProvider cls supports nm children =
        Inl (Thrown ActionProviderError (js ''Action provider name cannot be empty'') None))
   \<and> (\<not> (\<forall>c \<in> set nm. isWhiteSpace c) \<longrightarrow>
      (\<exists>p. new_ActionProvider cls supports nm children = Inr p \<and> provider_name p = nm
          \<and> actionProviders p = children))"
  using trim_empty_iff [of nm] by (auto simp: new_ActionProvider_def)

theorem C7_constructor_name_validation_witness:
  "(\<exists>e. new_ActionProvider () (\<lambda>_. True) (js '' '') [] = Inl e \<and> err_class e = ActionProviderError)
   \<and> (\<exists>e. new_ActionProvider () (\<lambda>_. True) [] [] = Inl e \<and> err_class e = ActionProviderError)
   \<and> (\<exists>e. new_ActionProvider () (\<lambda>_. True) [0x3000, 0x0A] [] = Inl e \<and> err_class e = ActionProviderError)
   \<and> (\<exists>p. new_ActionProvider () (\<lambda>_. True) (js ''wallet'') [] = Inr p \<and> provider_name p = js ''wallet''
          \<and> actionProviders p = [])"
  using C7_constructor_name_validation [of "js '' ''" "()" "\<lambda>_. True" "[]"]
    C7_constructor_name_validation [of "[]" "()" "\<lambda>_. True" "[]"]
    C7_constructor_name_validation [of "[0x3000, 0x0A]" "()" "\<lambda>_. True" "[]"]
    C7_constructor_name_validation [of "js ''wallet''" "()" "\<lambda>_. True" "[]"]
  by (simp add: js_def isWhiteSpace_def)

lemmas io_defs =
  io_return_def io_throw_def io_bind_def io_catch_def io_lift_def io_ask_def await_def

subsection \<open>Collecting the actions of a provider\<close>

lemma collect_actions_no_throw:
  "\<forall>q \<in> set ps. \<not> isl (getMetadata (constructor q)) \<Longrightarrow>
   fst (collect_actions getMetadata wp ps acts out) =
     Inr (acts @ concat (map (registered_actions getMetadata wp) ps))"
proof (induction ps arbitrary: acts out)
  case Nil
  then show ?case by simp
next
  case (Cons p ps)
  then show ?case
    by (cases "getMetadata (constructor p)")
       (auto simp: registered_actions_def split: option.splits)
qed

lemma getActions_no_throw:
  assumes "\<forall>q \<in> set (this # actionProviders this). \<not> isl (getMetadata (constructor q))"
  shows "fst (getActions getMetadata this wp out) =
     Inr (concat (map (registered_actions getMetadata wp) (this # actionProviders this)))"
proof -
  from assms have "fst (collect_actions getMetadata wp (this # actionProviders this) [] out) =
      Inr (concat (map (registered_actions getMetadata wp) (this # actionProviders this)))"
    using collect_actions_no_throw [of "this # actionProviders this" getMetadata wp "[]" out]
    by (simp del: collect_actions.simps)
  then show ?thesis
    by (cases "collect_actions getMetadata wp (this # actionProviders this) [] out")
       (simp add: getActions_def del: collect_actions.simps)
qed

text \<open>
  C8. A provider (the receiver or a direct child) whose metadata lookup signals absence is
  not an error: when no lookup throws, \<open>getActions\<close> returns normally, its list is the
  concatenation, in order, of what the receiver and each child have registered, and a
  provider with an absent lookup adds nothing to it.
\<close>

theorem C8_absent_metadata_contributes_nothing:
  "((\<forall>q \<in> set (this # actionProviders this). \<not> isl (getMetadata (constructor q))) \<longrightarrow>
      fst (getActions getMetadata this wp out) =
        Inr (concat (map (registered_actions getMetadata wp) (this # actionProviders this))))
   \<and> (\<forall>q. getMetadata (constructor q) = Inr None \<longrightarrow> registered_actions getMetadata wp q = [])
   \<and> ((\<forall>q \<in> set (this # actionProviders this). getMetadata (constructor q) = Inr None) \<longrightarrow>
      fst (getActions getMetadata this wp out) = Inr [])"
proof (intro conjI impI allI)
  assume "\<forall>q \<in> set (this # actionProviders this). \<not> isl (getMetadata (constructor q))"
  then show "fst (getActions getMetadata this wp out) =
        Inr (concat (map (registered_actions getMetadata wp) (this # actionProviders this)))"
    by (rule getActions_no_throw)
next
  fix q assume "getMetadata (constructor q) = Inr None"
  then show "registered_actions getMetadata wp q = []"
    by (simp add: registered_actions_def)
next
  assume absent: "\<forall>q \<in> set (this # actionProviders this). getMetadata (constructor q) = Inr None"
  then have "\<forall>q \<in> set (this # actionProviders this). \<not> isl (getMetadata (constructor q))"
    by simp
  then have "fst (getActions getMetadata this wp out) =
        Inr (concat (map (registered_actions getMetadata wp) (this # actionProviders this)))"
    by (rule getActions_no_throw)
  moreover from absent
  have "\<forall>q \<in> set (this # actionProviders this). registered_actions getMetadata wp q = []"
    by (simp add: registered_actions_def)
  then have "concat (map (registered_actions getMetadata wp) (this # actionProviders this)) = []"
    by (simp del: set_simps list.map)
  ultimately show "fst (getActions getMetadata this wp out) = Inr []"
    by (simp del: list.map)
qed

theorem C8_absent_metadata_contributes_nothing_witness:
  "fst (getActions
          (\<lambda>c::nat. Inr None :: thrown + (nat, unit, unit, unit, unit) StoredActionMetadata option)
          (ActionProvider (js ''parent'') [ActionProvider (js ''child'') [] 1 (\<lambda>n. True)] 0 (\<lambda>n. True))
          () []) = Inr []
   \<and> fst (getActions
          (\<lambda>c::nat. Inr (if c = 1 then Some [(js ''run'', \<lparr> meta_name = js ''run_it'', meta_description = [],
               meta_schema = (), meta_invoke = WithoutWallet (\<lambda>this args. Inr ()) \<rparr>)] else None)
             :: thrown + (nat, unit, unit, unit, unit) StoredActionMetadata option)
          (ActionProvider (js ''parent'') [ActionProvider (js ''child'') [] 1 (\<lambda>n. True)] 0 (\<lambda>n. True))
          () []) =
       Inr [\<lparr> name = js ''run_it'', description = [], schema = (), invoke = \<lambda>schemaArgs. Inr () \<rparr>]"
  using C8_absent_metadata_contributes_nothing
      [of "ActionProvider (js ''parent'') [ActionProvider (js ''child'') [] 1 (\<lambda>n. True)] 0 (\<lambda>n. True)"
          "\<lambda>c::nat. Inr None :: thrown + (nat, unit, unit, unit, unit) StoredActionMetadata option" "()" "[]"]
    C8_absent_metadata_contributes_nothing
      [of "ActionProvider (js ''parent'') [ActionProvider (js ''child'') [] 1 (\<lambda>n. True)] 0 (\<lambda>n. True)"
          "\<lambda>c::nat. Inr (if c = 1 then Some [(js ''run'', \<lparr> meta_name = js ''run_it'', meta_description = [],
               meta_schema = (), meta_invoke = WithoutWallet (\<lambda>this args. Inr ()) \<rparr>)] else None)
             :: thrown + (nat, unit, unit, unit, unit) StoredActionMetadata option" "()" "[]"]
  by (simp add: registered_actions_def Map_values_def make_action_def)

subsection \<open>The agent's list of actions\<close>

lemma scan_providers_supported:
  "\<forall>p \<in> set ps. supportsNetwork p (getNetwork wp) \<longrightarrow>
      (\<forall>out. fst (getActions getMetadata p wp out) = Inr (acts_of p)) \<Longrightarrow>
   \<exists>out'. scan_providers getMetadata wp ps acts uns out =
     (Inr (acts @ concat (map acts_of (filter (\<lambda>p. supportsNetwork p (getNetwork wp)) ps)),
           uns @ map provider_name (filter (\<lambda>p. \<not> supportsNetwork p (getNetwork wp)) ps)), out')"
proof (induction ps arbitrary: acts uns out)
  case Nil
  then show ?case by simp
next
  case (Cons p ps)
  show ?case
  proof (cases "supportsNetwork p (getNetwork wp)")
    case True
    with Cons.prems have "fst (getActions getMetadata p wp out) = Inr (acts_of p)" by simp
    then obtain out' where "getActions getMetadata p wp out = (Inr (acts_of p), out')"
      by (cases "getActions getMetadata p wp out") auto
    with True Cons.IH [of "acts @ acts_of p" uns out'] Cons.prems show ?thesis by simp
  next
    case False
    with Cons.IH [of acts "uns @ [provider_name p]" out] Cons.prems show ?thesis by simp
  qed
qed

text \<open>
  C6. \<open>TonAgent_getActions\<close> goes through the providers in declaration order. Provided
  that \<open>getActions\<close> of every supported provider returns normally (\<open>acts_of p\<close> being its
  list for the agent's wallet provider), the call returns normally whatever the unsupported
  providers are: the result is the concatenation, in declaration order, of the lists of
  the supported providers, each kept whole and in its own order, an unsupported provider
  adds no action, and the skipped list holds the names of the unsupported providers, one
  entry each, and is what the warning printed at the end names.
\<close>

theorem C6_agent_getActions_filters_by_network:
  assumes "\<forall>p \<in> set (agent_actionProviders agent).
      supportsNetwork p (getNetwork (walletProvider agent)) \<longrightarrow>
      (\<forall>out. fst (getActions getMetadata p (walletProvider agent) out) = Inr (acts_of p))"
  shows "fst (scan_providers getMetadata (walletProvider agent) (agent_actionProviders agent) [] [] []) =
      Inr (concat (map acts_of
             (filter (\<lambda>p. supportsNetwork p (getNetwork (walletProvider agent))) (agent_actionProviders agent))),
           map provider_name
             (filter (\<lambda>p. \<not> supportsNetwork p (getNetwork (walletProvider agent))) (agent_actionProviders agent)))
    \<and> fst (TonAgent_getActions getMetadata agent) =
      Inr (concat (map acts_of
             (filter (\<lambda>p. supportsNetwork p (getNetwork (walletProvider agent))) (agent_actionProviders agent))))
    \<and> (\<exists>out. snd (TonAgent_getActions getMetadata agent) =
          out @ unsupported_warning
            (map provider_name
               (filter (\<lambda>p. \<not> supportsNetwork p (getNetwork (walletProvider agent))) (agent_actionProviders agent)))
            (getNetwork (walletProvider agent)))"
proof -
  obtain out' where
    "scan_providers getMetadata (walletProvider agent) (agent_actionProviders agent) [] [] [] =
      (Inr (concat (map acts_of
             (filter (\<lambda>p. supportsNetwork p (getNetwork (walletProvider agent))) (agent_actionProviders agent))),
            map provider_name
             (filter (\<lambda>p. \<not> supportsNetwork p (getNetwork (walletProvider agent))) (agent_actionProviders agent))),
       out')"
    using scan_providers_supported [OF assms, of "[]" "[]" "[]"] by auto
  then show ?thesis
    by (simp add: TonAgent_getActions_def)
qed

theorem C6_agent_getActions_filters_by_network_witness:
  "fst (TonAgent_getActions
     (\<lambda>c::nat. if c = 1 then Inr (Some [(js ''run'', \<lparr> meta_name = js ''run_it'', meta_description = [],
               meta_schema = (), meta_invoke = WithoutWallet (\<lambda>this args. Inr ()) \<rparr>)])
             else (Inl (Thrown TypeError [] None)
               :: thrown + (nat, WalletProvider, unit, unit, unit) StoredActionMetadata option))
     \<lparr> walletProvider = \<lparr> getAddress = js ''EQ'', getNetwork = Testnet, getName = js ''w'',
           getBalance = (\<lambda>tr. Inr 0), nativeTransfer = (\<lambda>to val tr. Inr []),
           isDeployed = (\<lambda>tr. Inr True), deploy = (\<lambda>tr. Inr []), getWorkchain = 0 \<rparr>,
       agent_actionProviders =
         [ActionProvider (js ''main_only'') [] 0 (\<lambda>n. n = Mainnet),
          ActionProvider (js ''any'') [] 1 (\<lambda>n. True)] \<rparr>) =
     Inr [\<lparr> name = js ''run_it'', description = [], schema = (), invoke = \<lambda>schemaArgs. Inr () \<rparr>]
   \<and> fst (scan_providers
     (\<lambda>c::nat. if c = 1 then Inr (Some [(js ''run'', \<lparr> meta_name = js ''run_it'', meta_description = [],
               meta_schema = (), meta_invoke = WithoutWallet (\<lambda>this args. Inr ()) \<rparr>)])
             else (Inl (Thrown TypeError [] None)
               :: thrown + (nat, WalletProvider, unit, unit, unit) StoredActionMetadata option))
     \<lparr> getAddress = js ''EQ'', getNetwork = Testnet, getName = js ''w'',
           getBalance = (\<lambda>tr. Inr 0), nativeTransfer = (\<lambda>to val tr. Inr []),
           isDeployed = (\<lambda>tr. Inr True), deploy = (\<lambda>tr. Inr []), getWorkchain = 0 \<rparr>
     [ActionProvider (js ''main_only'') [] 0 (\<lambda>n. n = Mainnet),
      ActionProvider (js ''any'') [] 1 (\<lambda>n. True)] [] [] []) =
     Inr ([\<lparr> name = js ''run_it'', description = [], schema = (), invoke = \<lambda>schemaArgs. Inr () \<rparr>],
          [js ''main_only''])"
proof -
  let ?gm = "\<lambda>c::nat. if c = 1 then Inr (Some [(js ''run'', \<lparr> meta_name = js ''run_it'', meta_description = [],
               meta_schema = (), meta_invoke = WithoutWallet (\<lambda>this args. Inr ()) \<rparr>)])
             else (Inl (Thrown TypeError [] None)
               :: thrown + (nat, WalletProvider, unit, unit, unit) StoredActionMetadata option)"
  let ?wp = "\<lparr> getAddress = js ''EQ'', getNetwork = Testnet, getName = js ''w'',
           getBalance = (\<lambda>tr. Inr 0), nativeTransfer = (\<lambda>to val tr. Inr []),
           isDeployed = (\<lambda>tr. Inr True), deploy = (\<lambda>tr. Inr []), getWorkchain = 0 \<rparr>"
  let ?ps = "[ActionProvider (js ''main_only'') [] (0::nat) (\<lambda>n. n = Mainnet),
              ActionProvider (js ''any'') [] 1 (\<lambda>n. True)]"
  let ?acts = "\<lambda>p::nat ActionProvider.
      [\<lparr> name = js ''run_it'', description = [], schema = (), invoke = \<lambda>schemaArgs::unit. (Inr () :: thrown + unit) \<rparr>]"
  have hyp: "\<forall>p \<in> set (agent_actionProviders \<lparr> walletProvider = ?wp, agent_actionProviders = ?ps \<rparr>).
      supportsNetwork p (getNetwork (walletProvider \<lparr> walletProvider = ?wp, agent_actionProviders = ?ps \<rparr>)) \<longrightarrow>
      (\<forall>out. fst (getActions ?gm p (walletProvider \<lparr> walletProvider = ?wp, agent_actionProviders = ?ps \<rparr>) out)
         = Inr (?acts p))"
    by (simp add: getActions_def Map_values_def make_action_def)
  show ?thesis
    using C6_agent_getActions_filters_by_network [OF hyp] by simp
qed

subsection \<open>The wallet actions\<close>

lemma createWalletActionProvider_ok:
  "createWalletActionProvider children =
     Inr (ActionProvider (js ''wallet'') children WalletActionProvider (\<lambda>network. True))"
  by (simp add: createWalletActionProvider_def new_WalletActionProvider_def new_ActionProvider_def
      trim_def js_def isWhiteSpace_def)

text \<open>
  C1. An agent whose wallet provider is bound to testnet and whose only action provider is
  the wallet action provider without children (as \<open>createWalletActionProvider []\<close>
  builds it) gets exactly three actions from \<open>TonAgent_getActions\<close>, named
  \<open>get_wallet_details\<close>, \<open>transfer_ton\<close>, \<open>ensure_wallet_deployed\<close>, in this order. The
  registry is the one the three decorators of the class leave behind.
\<close>

theorem C1_wallet_agent_has_three_actions:
  assumes "getNetwork wp = Testnet"
    and "createWalletActionProvider [] = Inr p"
    and "registry WalletActionProvider = None"
  shows "\<exists>actions out.
     TonAgent_getActions (Reflect_getMetadata (WalletActionProvider_decorators toFixed9 registry))
       \<lparr> walletProvider = wp, agent_actionProviders = [p] \<rparr> = (Inr actions, out)
     \<and> map name actions = [js ''get_wallet_details'', js ''transfer_ton'', js ''ensure_wallet_deployed'']"
proof -
  from assms(2) have p: "p = ActionProvider (js ''wallet'') [] WalletActionProvider (\<lambda>network. True)"
    by (simp add: createWalletActionProvider_ok)
  show ?thesis
    using assms(3)
    by (simp add: p TonAgent_getActions_def getActions_def Reflect_getMetadata_def getRegistered_def
        WalletActionProvider_decorators_def CreateAction_def register_def Map_values_def
        make_action_def unsupported_warning_def js_def)
qed

theorem C1_wallet_agent_has_three_actions_witness:
  "\<exists>actions out.
     TonAgent_getActions (Reflect_getMetadata (WalletActionProvider_decorators (\<lambda>balance. js ''0.000000000'') Map.empty))
       \<lparr> walletProvider = \<lparr> getAddress = js ''EQ'', getNetwork = Testnet, getName = js ''w'',
           getBalance = (\<lambda>tr. Inr 0), nativeTransfer = (\<lambda>to val tr. Inr []),
           isDeployed = (\<lambda>tr. Inr True), deploy = (\<lambda>tr. Inr []), getWorkchain = 0 \<rparr>,
         agent_actionProviders = [ActionProvider (js ''wallet'') [] WalletActionProvider (\<lambda>network. True)] \<rparr>
       = (Inr actions, out)
     \<and> map name actions = [js ''get_wallet_details'', js ''transfer_ton'', js ''ensure_wallet_deployed'']"
  using C1_wallet_agent_has_three_actions
    [of "\<lparr> getAddress = js ''EQ'', getNetwork = Testnet, getName = js ''w'',
           getBalance = (\<lambda>tr. Inr 0), nativeTransfer = (\<lambda>to val tr. Inr []),
           isDeployed = (\<lambda>tr. Inr True), deploy = (\<lambda>tr. Inr []), getWorkchain = 0 \<rparr>"
        "ActionProvider (js ''wallet'') [] WalletActionProvider (\<lambda>network. True)"
        Map.empty "\<lambda>balance. js ''0.000000000''"]
  by (simp add: createWalletActionProvider_ok)

text \<open>
  C10. \<open>transferTon\<close> fails with a WalletActionError and without a call of
  \<open>nativeTransfer\<close> when the destination or the value is missing (nothing is called) and
  when the wallet answers that it is not deployed (only \<open>isDeployed\<close> is called). Every
  failure of \<open>transferTon\<close> is a WalletActionError with the message "Failed to transfer TON"
  that wraps the underlying cause: the error of the failed precondition, or the very error
  with which \<open>isDeployed\<close>, \<open>getBalance\<close> or \<open>nativeTransfer\<close> failed; when none of them
  fails, \<open>transferTon\<close> returns its report.
\<close>

theorem C10_transferTon_failures:
  "(falsy (arg_to args) \<or> falsy (arg_value args) \<longrightarrow>
      transferTon wp args tr =
        (Inl (Thrown WalletActionError (js ''Failed to transfer TON'')
                (Some (Thrown WalletActionError
                         (js ''Destination address and transfer amount are required'') None))), tr))
   \<and> (\<not> falsy (arg_to args) \<and> \<not> falsy (arg_value args) \<and> isDeployed wp tr = Inr False \<longrightarrow>
      transferTon wp args tr =
        (Inl (Thrown WalletActionError (js ''Failed to transfer TON'')
                (Some (Thrown WalletActionError
                         (js ''Wallet is not deployed. Please deploy the wallet first.'') None))),
         tr @ [Call_isDeployed]))
   \<and> (\<forall>e tr'. transferTon wp args tr = (Inl e, tr') \<longrightarrow>
        (\<exists>cause. e = Thrown WalletActionError (js ''Failed to transfer TON'') (Some cause)))
   \<and> (\<forall>e. \<not> falsy (arg_to args) \<and> \<not> falsy (arg_value args) \<and> isDeployed wp tr = Inl e \<longrightarrow>
        transferTon wp args tr =
          (Inl (Thrown WalletActionError (js ''Failed to transfer TON'') (Some e)),
           tr @ [Call_isDeployed]))
   \<and> (\<forall>e. \<not> falsy (arg_to args) \<and> \<not> falsy (arg_value args) \<and> isDeployed wp tr = Inr True
           \<and> getBalance wp (tr @ [Call_isDeployed]) = Inl e \<longrightarrow>
        transferTon wp args tr =
          (Inl (Thrown WalletActionError (js ''Failed to transfer TON'') (Some e)),
           tr @ [Call_isDeployed, Call_getBalance]))
   \<and> (\<forall>e to val balance. arg_to args = Some to \<and> arg_value args = Some val \<and> to \<noteq> [] \<and> val \<noteq> []
           \<and> isDeployed wp tr = Inr True
           \<and> getBalance wp (tr @ [Call_isDeployed]) = Inr balance
           \<and> nativeTransfer wp to val (tr @ [Call_isDeployed, Call_getBalance]) = Inl e \<longrightarrow>
        transferTon wp args tr =
          (Inl (Thrown WalletActionError (js ''Failed to transfer TON'') (Some e)),
           tr @ [Call_isDeployed, Call_getBalance, Call_nativeTransfer to val]))
   \<and> (\<forall>to val balance txHash. arg_to args = Some to \<and> arg_value args = Some val \<and> to \<noteq> [] \<and> val \<noteq> []
           \<and> isDeployed wp tr = Inr True
           \<and> getBalance wp (tr @ [Call_isDeployed]) = Inr balance
           \<and> nativeTransfer wp to val (tr @ [Call_isDeployed, Call_getBalance]) = Inr txHash \<longrightarrow>
        (\<exists>report. transferTon wp args tr =
          (Inr report, tr @ [Call_isDeployed, Call_getBalance, Call_nativeTransfer to val])))"
  by (auto simp: transferTon_def falsy_def io_defs split: option.splits sum.splits prod.splits)

theorem C10_transferTon_failures_witness:
  "transferTon
     \<lparr> getAddress = js ''EQ'', getNetwork = Testnet, getName = js ''w'',
       getBalance = (\<lambda>tr. Inr 5), nativeTransfer = (\<lambda>to val tr. Inr (js ''ab'')),
       isDeployed = (\<lambda>tr. Inr False), deploy = (\<lambda>tr. Inr []), getWorkchain = 0 \<rparr>
     \<lparr> arg_to = Some (js ''EQdest''), arg_value = Some (js ''1'') \<rparr> [] =
        (Inl (Thrown WalletActionError (js ''Failed to transfer TON'')
                (Some (Thrown WalletActionError
                         (js ''Wallet is not deployed. Please deploy the wallet first.'') None))),
         [Call_isDeployed])
   \<and> transferTon
     \<lparr> getAddress = js ''EQ'', getNetwork = Testnet, getName = js ''w'',
       getBalance = (\<lambda>tr. Inr 5), nativeTransfer = (\<lambda>to val tr. Inr (js ''ab'')),
       isDeployed = (\<lambda>tr. Inr True), deploy = (\<lambda>tr. Inr []), getWorkchain = 0 \<rparr>
     \<lparr> arg_to = None, arg_value = Some (js ''1'') \<rparr> [] =
        (Inl (Thrown WalletActionError (js ''Failed to transfer TON'')
                (Some (Thrown WalletActionError
                         (js ''Destination address and transfer amount are required'') None))), [])
   \<and> transferTon
     \<lparr> getAddress = js ''EQ'', getNetwork = Testnet, getName = js ''w'',
       getBalance = (\<lambda>tr. Inr 5), nativeTransfer = (\<lambda>to val tr. Inl (Thrown Error (js ''rpc'') None)),
       isDeployed = (\<lambda>tr. Inr True), deploy = (\<lambda>tr. Inr []), getWorkchain = 0 \<rparr>
     \<lparr> arg_to = Some (js ''EQdest''), arg_value = Some (js ''1'') \<rparr> [] =
        (Inl (Thrown WalletActionError (js ''Failed to transfer TON'') (Some (Thrown Error (js ''rpc'') None))),
         [Call_isDeployed, Call_getBalance, Call_nativeTransfer (js ''EQdest'') (js ''1'')])
   \<and> transferTon
     \<lparr> getAddress = js ''EQ'', getNetwork = Testnet, getName = js ''w'',
       getBalance = (\<lambda>tr. Inl (Thrown TypeError (js ''net'') None)),
       nativeTransfer = (\<lambda>to val tr. Inr (js ''ab'')),
       isDeployed = (\<lambda>tr. Inr True), deploy = (\<lambda>tr. Inr []), getWorkchain = 0 \<rparr>
     \<lparr> arg_to = Some (js ''EQdest''), arg_value = Some (js ''1'') \<rparr> [] =
        (Inl (Thrown WalletActionError (js ''Failed to transfer TON'') (Some (Thrown TypeError (js ''net'') None))),
         [Call_isDeployed, Call_getBalance])
   \<and> transferTon
     \<lparr> getAddress = js ''EQ'', getNetwork = Testnet, getName = js ''w'',
       getBalance = (\<lambda>tr. Inr 5), nativeTransfer = (\<lambda>to val tr. Inr (js ''ab'')),
       isDeployed = (\<lambda>tr. Inl (Thrown Error (js ''down'') None)), deploy = (\<lambda>tr. Inr []),
       getWorkchain = 0 \<rparr>
     \<lparr> arg_to = Some (js ''EQdest''), arg_value = Some (js ''1'') \<rparr> [] =
        (Inl (Thrown WalletActionError (js ''Failed to transfer TON'') (Some (Thrown Error (js ''down'') None))),
         [Call_isDeployed])"
  using C10_transferTon_failures
    [of "\<lparr> arg_to = Some (js ''EQdest''), arg_value = Some (js ''1'') \<rparr>"
        "\<lparr> getAddress = js ''EQ'', getNetwork = Testnet, getName = js ''w'',
       getBalance = (\<lambda>tr. Inr 5), nativeTransfer = (\<lambda>to val tr. Inr (js ''ab'')),
       isDeployed = (\<lambda>tr. Inr False), deploy = (\<lambda>tr. Inr []), getWorkchain = 0 \<rparr>" "[]"]
    C10_transferTon_failures
    [of "\<lparr> arg_to = None, arg_value = Some (js ''1'') \<rparr>"
        "\<lparr> getAddress = js ''EQ'', getNetwork = Testnet, getName = js ''w'',
       getBalance = (\<lambda>tr. Inr 5), nativeTransfer = (\<lambda>to val tr. Inr (js ''ab'')),
       isDeployed = (\<lambda>tr. Inr True), deploy = (\<lambda>tr. Inr []), getWorkchain = 0 \<rparr>" "[]"]
    C10_transferTon_failures
    [of "\<lparr> arg_to = Some (js ''EQdest''), arg_value = Some (js ''1'') \<rparr>"
        "\<lparr> getAddress = js ''EQ'', getNetwork = Testnet, getName = js ''w'',
       getBalance = (\<lambda>tr. Inr 5), nativeTransfer = (\<lambda>to val tr. Inl (Thrown Error (js ''rpc'') None)),
       isDeployed = (\<lambda>tr. Inr True), deploy = (\<lambda>tr. Inr []), getWorkchain = 0 \<rparr>" "[]"]
    C10_transferTon_failures
    [of "\<lparr> arg_to = Some (js ''EQdest''), arg_value = Some (js ''1'') \<rparr>"
        "\<lparr> getAddress = js ''EQ'', getNetwork = Testnet, getName = js ''w'',
       getBalance = (\<lambda>tr. Inl (Thrown TypeError (js ''net'') None)),
       nativeTransfer = (\<lambda>to val tr. Inr (js ''ab'')),
       isDeployed = (\<lambda>tr. Inr True), deploy = (\<lambda>tr. Inr []), getWorkchain = 0 \<rparr>" "[]"]
    C10_transferTon_failures
    [of "\<lparr> arg_to = Some (js ''EQdest''), arg_value = Some (js ''1'') \<rparr>"
        "\<lparr> getAddress = js ''EQ'', getNetwork = Testnet, getName = js ''w'',
       getBalance = (\<lambda>tr. Inr 5), nativeTransfer = (\<lambda>to val tr. Inr (js ''ab'')),
       isDeployed = (\<lambda>tr. Inl (Thrown Error (js ''down'') None)), deploy = (\<lambda>tr. Inr []),
       getWorkchain = 0 \<rparr>" "[]"]
  by (simp add: falsy_def js_def)

subsection \<open>The TON wallet provider\<close>

text \<open>
  C9. A \<open>TonWalletProvider\<close> is constructed whenever the wallet, the contract, the client
  and the key pair are present; when the config omits the network, \<open>getNetwork\<close> answers
  mainnet, and when it omits the workchain, \<open>getWorkchain\<close> answers 0.
\<close>

theorem C9_constructor_defaults:
  assumes "config_wallet config = Some w" and "config_contract config = Some c"
    and "config_tonClient config = Some t" and "config_keyPair config = Some k"
  shows "\<exists>this. new_TonWalletProvider config = Inr this
     \<and> (config_network config = None \<longrightarrow> TonWalletProvider_getNetwork this = Mainnet)
     \<and> (config_workchain config = None \<longrightarrow> TonWalletProvider_getWorkchain this = 0)"
  using assms
  by (simp add: new_TonWalletProvider_def TonWalletProvider_getNetwork_def
      TonWalletProvider_getWorkchain_def)

theorem C9_constructor_defaults_witness:
  "\<exists>this. new_TonWalletProvider
       \<lparr> config_wallet = Some (wallet test_provider), config_contract = Some test_contract,
         config_tonClient = Some test_client, config_keyPair = Some (keyPair test_provider),
         config_network = None, config_workchain = None \<rparr> = Inr this
     \<and> TonWalletProvider_getNetwork this = Mainnet \<and> TonWalletProvider_getWorkchain this = 0"
  using C9_constructor_defaults
    [of "\<lparr> config_wallet = Some (wallet test_provider), config_contract = Some test_contract,
         config_tonClient = Some test_client, config_keyPair = Some (keyPair test_provider),
         config_network = None, config_workchain = None \<rparr>"
        "wallet test_provider" test_contract test_client "keyPair test_provider"]
  by simp

lemma nativeTransfer_malformed_destination:
  "Address_parse sdk to = Inl e \<Longrightarrow>
   TonWalletProvider_nativeTransfer sdk this to val tr =
     (Inl (Thrown Error (js ''Failed to transfer TON: '' @ error_toString e) None),
      tr @ [Console (Console_error (js ''Failed to transfer TON:'') e)])"
  by (simp add: TonWalletProvider_nativeTransfer_def io_defs console_error_def)

text \<open>
  C2. A destination that \<^verbatim>\<open>Address.parse\<close> rejects makes \<open>nativeTransfer\<close> fail before
  the sequence number is fetched and before anything is sent: only the diagnostic is
  printed. The error raised is a plain \<^verbatim>\<open>Error\<close> whose message quotes the cause, not a
  \<^verbatim>\<open>WalletProviderError\<close>, although the abstract method is documented to throw that
  class. Here on the destination \<^verbatim>\<open>not-an-address\<close>.
\<close>

theorem C2_nativeTransfer_malformed_destination_plain_Error:
  "TonWalletProvider_nativeTransfer test_sdk test_provider (js ''not-an-address'') (js ''1'') [] =
     (Inl (Thrown Error (js ''Failed to transfer TON: Error: Unknown address type: not-an-address'') None),
      [Console (Console_error (js ''Failed to transfer TON:'')
                 (Thrown Error (js ''Unknown address type: not-an-address'') None))])
   \<and> err_class (projl (fst (TonWalletProvider_nativeTransfer test_sdk test_provider
          (js ''not-an-address'') (js ''1'') []))) \<noteq> WalletProviderError"
proof -
  have "Address_parse test_sdk (js ''not-an-address'') =
      Inl (Thrown Error (js ''Unknown address type: not-an-address'') None)"
    by (simp add: test_sdk_def js_def)
  from nativeTransfer_malformed_destination [OF this, of test_provider "js ''1''" "[]"]
  show ?thesis
    by (simp add: error_toString_def class_name_def js_def)
qed

text \<open>
  C3. When the wallet's own address parses and the node answers that the account is
  active whenever it is asked, \<open>deploy\<close> returns the sentinel "Wallet is already deployed"
  after the state query alone, and a second \<open>deploy\<close> right after it does the same: no
  sequence number is fetched and no deployment is submitted in either call.
\<close>

theorem C3_deploy_on_deployed_wallet:
  assumes "Address_parse sdk (TonWalletProvider_getAddress sdk this) = Inr a"
    and "\<forall>tr. provider_getState (tonClient this) tr a = Inr Active"
  shows "TonWalletProvider_deploy sdk this tr =
        (Inr (js ''Wallet is already deployed''), tr @ [Get_state a])
    \<and> TonWalletProvider_deploy sdk this (snd (TonWalletProvider_deploy sdk this tr)) =
        (Inr (js ''Wallet is already deployed''), tr @ [Get_state a, Get_state a])"
  using assms
  by (simp add: TonWalletProvider_deploy_def TonWalletProvider_isDeployed_def io_defs)

theorem C3_deploy_on_deployed_wallet_witness:
  "TonWalletProvider_deploy test_sdk test_provider [] =
        (Inr (js ''Wallet is already deployed''), [Get_state \<lparr> workChain = 0, hash = [3] \<rparr>])
    \<and> TonWalletProvider_deploy test_sdk test_provider (snd (TonWalletProvider_deploy test_sdk test_provider [])) =
        (Inr (js ''Wallet is already deployed''),
         [Get_state \<lparr> workChain = 0, hash = [3] \<rparr>, Get_state \<lparr> workChain = 0, hash = [3] \<rparr>])"
proof -
  have parse: "Address_parse test_sdk (TonWalletProvider_getAddress test_sdk test_provider) =
      Inr \<lparr> workChain = 0, hash = [3] \<rparr>"
    by (simp add: test_sdk_def test_provider_def TonWalletProvider_getAddress_def js_def)
  have active: "\<forall>tr. provider_getState (tonClient test_provider) tr \<lparr> workChain = 0, hash = [3] \<rparr> = Inr Active"
    by (simp add: test_provider_def test_client_def)
  from C3_deploy_on_deployed_wallet [OF parse active, of "[]"] show ?thesis
    by auto
qed

lemma string_includes_required_fields:
  "string_includes (js ''TONCENTER_API_URL and TONCENTER_API_KEY are required'') (js ''TONCENTER_API_URL'')"
  "string_includes (js ''TONCENTER_API_URL and TONCENTER_API_KEY are required'') (js ''TONCENTER_API_KEY'')"
  "string_includes (js ''MNEMONIC_PHRASE is required'') (js ''MNEMONIC_PHRASE'')"
  by (simp_all add: js_def)

lemma configureWithWallet_missing_endpoint_or_key:
  "falsy (TONCENTER_API_URL config) \<or> falsy (TONCENTER_API_KEY config) \<Longrightarrow>
   configureWithWallet sdk config tr =
     (Inl (Thrown WalletProviderError (js ''TONCENTER_API_URL and TONCENTER_API_KEY are required'') None), tr)"
  by (auto simp: configureWithWallet_def falsy_def io_defs instanceof_def split: option.splits)

lemma configureWithWallet_missing_mnemonic:
  "\<not> falsy (TONCENTER_API_URL config) \<Longrightarrow> \<not> falsy (TONCENTER_API_KEY config) \<Longrightarrow>
   falsy (MNEMONIC_PHRASE config) \<Longrightarrow>
   configureWithWallet sdk config tr =
     (Inl (Thrown WalletProviderError (js ''MNEMONIC_PHRASE is required'') None), tr)"
  by (auto simp: configureWithWallet_def falsy_def io_defs instanceof_def split: option.splits)

text \<open>
  C4. A config in which the RPC endpoint, the RPC key or the mnemonic is missing (or
  empty) makes \<open>configureWithWallet\<close> fail with a WalletProviderError without a cause,
  whose message names a field that is missing, and with the history of SDK calls
  unchanged: no client is used and no key is derived, whatever the SDK would do.
\<close>

theorem C4_configureWithWallet_fails_fast:
  "falsy (field_value config f) \<longrightarrow>
     (\<exists>msg g. configureWithWallet sdk config tr = (Inl (Thrown WalletProviderError msg None), tr)
        \<and> falsy (field_value config g) \<and> string_includes msg (field_name g))"
proof
  assume missing: "falsy (field_value config f)"
  show "\<exists>msg g. configureWithWallet sdk config tr = (Inl (Thrown WalletProviderError msg None), tr)
        \<and> falsy (field_value config g) \<and> string_includes msg (field_name g)"
  proof (cases "falsy (TONCENTER_API_URL config)")
    case True
    then have "configureWithWallet sdk config tr =
        (Inl (Thrown WalletProviderError (js ''TONCENTER_API_URL and TONCENTER_API_KEY are required'') None), tr)"
      by (simp add: configureWithWallet_missing_endpoint_or_key)
    moreover from True have "falsy (field_value config Field_URL)"
      by (simp add: field_value_def)
    moreover have "string_includes (js ''TONCENTER_API_URL and TONCENTER_API_KEY are required'')
        (field_name Field_URL)"
      by (simp add: field_name_def string_includes_required_fields)
    ultimately show ?thesis by blast
  next
    case url: False
    show ?thesis
    proof (cases "falsy (TONCENTER_API_KEY config)")
      case True
      then have "configureWithWallet sdk config tr =
          (Inl (Thrown WalletProviderError (js ''TONCENTER_API_URL and TONCENTER_API_KEY are required'') None), tr)"
        by (simp add: configureWithWallet_missing_endpoint_or_key)
      moreover from True have "falsy (field_value config Field_KEY)"
        by (simp add: field_value_def)
      moreover have "string_includes (js ''TONCENTER_API_URL and TONCENTER_API_KEY are required'')
          (field_name Field_KEY)"
        by (simp add: field_name_def string_includes_required_fields)
      ultimately show ?thesis by blast
    next
      case key: False
      from missing url key have mn: "falsy (MNEMONIC_PHRASE config)"
        by (cases f) (simp_all add: field_value_def)
      with url key have "configureWithWallet sdk config tr =
          (Inl (Thrown WalletProviderError (js ''MNEMONIC_PHRASE is required'') None), tr)"
        by (simp add: configureWithWallet_missing_mnemonic)
      moreover from mn have "falsy (field_value config Field_MNEMONIC)"
        by (simp add: field_value_def)
      moreover have "string_includes (js ''MNEMONIC_PHRASE is required'') (field_name Field_MNEMONIC)"
        by (simp add: field_name_def string_includes_required_fields)
      ultimately show ?thesis by blast
    qed
  qed
qed

theorem C4_configureWithWallet_fails_fast_witness:
  "(\<exists>msg. configureWithWallet test_sdk (test_config \<lparr> TONCENTER_API_KEY := None \<rparr>) [] =
       (Inl (Thrown WalletProviderError msg None), []))
   \<and> (\<exists>msg. configureWithWallet test_sdk (test_config \<lparr> MNEMONIC_PHRASE := Some [] \<rparr>) [Get_balance] =
       (Inl (Thrown WalletProviderError msg None), [Get_balance]))"
  using C4_configureWithWallet_fails_fast [of "test_config \<lparr> TONCENTER_API_KEY := None \<rparr>" Field_KEY test_sdk "[]"]
    C4_configureWithWallet_fails_fast
      [of "test_config \<lparr> MNEMONIC_PHRASE := Some [] \<rparr>" Field_MNEMONIC test_sdk "[Get_balance]"]
  by (auto simp: field_value_def falsy_def test_config_def)

lemma configureWithWallet_success:
  assumes "configureWithWallet sdk config tr = (Inr p, tr')"
  shows "\<exists>m keys. MNEMONIC_PHRASE config = Some m
     \<and> mnemonicToPrivateKey sdk tr (map trim (split 0x20 m)) = Inr keys
     \<and> WalletContractV4_create sdk (tr @ [Mnemonic_to_private_key (map trim (split 0x20 m))])
           (case WORKCHAIN config of None \<Rightarrow> 0 | Some n \<Rightarrow> n) (publicKey keys)
         = Inr (wallet p)"
  using assms
  by (auto simp: configureWithWallet_def io_defs new_TonWalletProvider_def Let_def
      split: option.splits if_splits sum.splits prod.splits)

lemma configureWithWallet_history_independent:
  assumes "sdk_deterministic sdk"
  shows "fst (configureWithWallet sdk config tr1) = fst (configureWithWallet sdk config tr2)"
proof -
  have kdf: "\<And>m. mnemonicToPrivateKey sdk tr1 m = mnemonicToPrivateKey sdk tr2 m"
    using assms by (simp add: sdk_deterministic_def)
  have create: "\<And>m wc pk. WalletContractV4_create sdk (tr1 @ [Mnemonic_to_private_key m]) wc pk =
      WalletContractV4_create sdk (tr2 @ [Mnemonic_to_private_key m]) wc pk"
    using assms by (simp add: sdk_deterministic_def)
  show ?thesis
    by (auto simp: configureWithWallet_def io_defs new_TonWalletProvider_def Let_def kdf create
        split: option.splits if_splits sum.splits prod.splits)
qed

text \<open>Without a repeatable key derivation the same config gives two addresses: the
  factory adds no determinism of its own to what the SDK answers.\<close>

lemma configureWithWallet_follows_the_sdk:
  "TonWalletProvider_getAddress drifting_sdk (projr (fst (configureWithWallet drifting_sdk test_config []))) \<noteq>
   TonWalletProvider_getAddress drifting_sdk
     (projr (fst (configureWithWallet drifting_sdk test_config [Get_balance])))"
  by (simp add: configureWithWallet_def drifting_sdk_def test_config_def test_sdk_def io_defs
      new_TonWalletProvider_def Let_def TonWalletProvider_getAddress_def js_def)

text \<open>
  C5. Let the SDK be deterministic in the sense of the spec: its key derivation and its
  wallet constructor answer by their arguments alone. Then two calls of
  \<open>configureWithWallet\<close> that both return a provider, made after any two histories and
  with configs that agree on the mnemonic and on the workchain (identical configs in
  particular, whatever the endpoint, the key and the network), give providers with the
  same address; and that address is the printed address of the wallet contract created for
  the workchain (0 when omitted) from the public key derived from the words of the
  mnemonic, split at spaces and trimmed.
\<close>

theorem C5_address_is_deterministic:
  assumes "sdk_deterministic sdk"
    and "configureWithWallet sdk config1 tr1 = (Inr p1, tr1')"
    and "configureWithWallet sdk config2 tr2 = (Inr p2, tr2')"
    and "MNEMONIC_PHRASE config1 = MNEMONIC_PHRASE config2"
    and "WORKCHAIN config1 = WORKCHAIN config2"
  shows "TonWalletProvider_getAddress sdk p1 = TonWalletProvider_getAddress sdk p2
    \<and> (\<exists>m keys w. MNEMONIC_PHRASE config1 = Some m
          \<and> mnemonicToPrivateKey sdk tr1 (map trim (split 0x20 m)) = Inr keys
          \<and> WalletContractV4_create sdk (tr1 @ [Mnemonic_to_private_key (map trim (split 0x20 m))])
                (case WORKCHAIN config1 of None \<Rightarrow> 0 | Some n \<Rightarrow> n) (publicKey keys) = Inr w
          \<and> TonWalletProvider_getAddress sdk p1 = Address_toString sdk (address w))"
proof -
  from configureWithWallet_success [OF assms(2)] obtain m1 keys1 where
    one: "MNEMONIC_PHRASE config1 = Some m1"
      "mnemonicToPrivateKey sdk tr1 (map trim (split 0x20 m1)) = Inr keys1"
      "WalletContractV4_create sdk (tr1 @ [Mnemonic_to_private_key (map trim (split 0x20 m1))])
          (case WORKCHAIN config1 of None \<Rightarrow> 0 | Some n \<Rightarrow> n) (publicKey keys1) = Inr (wallet p1)"
    by blast
  from configureWithWallet_success [OF assms(3)] obtain m2 keys2 where
    two: "MNEMONIC_PHRASE config2 = Some m2"
      "mnemonicToPrivateKey sdk tr2 (map trim (split 0x20 m2)) = Inr keys2"
      "WalletContractV4_create sdk (tr2 @ [Mnemonic_to_private_key (map trim (split 0x20 m2))])
          (case WORKCHAIN config2 of None \<Rightarrow> 0 | Some n \<Rightarrow> n) (publicKey keys2) = Inr (wallet p2)"
    by blast
  from one(1) two(1) assms(4) have m: "m1 = m2" by simp
  from assms(1) have "mnemonicToPrivateKey sdk tr1 (map trim (split 0x20 m1)) =
      mnemonicToPrivateKey sdk tr2 (map trim (split 0x20 m1))"
    by (simp add: sdk_deterministic_def)
  with one(2) two(2) m have keys: "keys1 = keys2" by simp
  from assms(1) have "WalletContractV4_create sdk (tr1 @ [Mnemonic_to_private_key (map trim (split 0x20 m1))])
          (case WORKCHAIN config1 of None \<Rightarrow> 0 | Some n \<Rightarrow> n) (publicKey keys1) =
      WalletContractV4_create sdk (tr2 @ [Mnemonic_to_private_key (map trim (split 0x20 m1))])
          (case WORKCHAIN config1 of None \<Rightarrow> 0 | Some n \<Rightarrow> n) (publicKey keys1)"
    unfolding sdk_deterministic_def by blast
  with one(3) two(3) m keys assms(5) have "wallet p1 = wallet p2" by simp
  then have "TonWalletProvider_getAddress sdk p1 = TonWalletProvider_getAddress sdk p2"
    by (simp add: TonWalletProvider_getAddress_def)
  moreover have "TonWalletProvider_getAddress sdk p1 = Address_toString sdk (address (wallet p1))"
    by (simp add: TonWalletProvider_getAddress_def)
  ultimately show ?thesis
    using one by blast
qed

lemma configureWithWallet_test_config:
  "configureWithWallet test_sdk test_config tr =
     (Inr \<lparr> wallet = \<lparr> wallet_workchain = 0, wallet_publicKey = [3], address = \<lparr> workChain = 0, hash = [3] \<rparr> \<rparr>,
            contract = test_contract, tonClient = test_client,
            keyPair = \<lparr> publicKey = [3], secretKey = [7] \<rparr>, network = Testnet, workchain = 0 \<rparr>,
      tr @ [Mnemonic_to_private_key [js ''abandon'', js ''ability'', js ''able'']])"
  by (simp add: configureWithWallet_def test_config_def test_sdk_def io_defs new_TonWalletProvider_def
      Let_def trim_def isWhiteSpace_def js_def)

lemma test_sdk_deterministic: "sdk_deterministic test_sdk"
  by (simp add: sdk_deterministic_def test_sdk_def)

theorem C5_address_is_deterministic_witness:
  "TonWalletProvider_getAddress test_sdk (projr (fst (configureWithWallet test_sdk test_config []))) =
   TonWalletProvider_getAddress test_sdk
     (projr (fst (configureWithWallet test_sdk test_config [Get_balance, Get_seqno])))
   \<and> TonWalletProvider_getAddress test_sdk (projr (fst (configureWithWallet test_sdk test_config []))) =
       js ''EQ'' @ [3]
   \<and> \<not> isl (fst (configureWithWallet test_sdk test_config []))
   \<and> \<not> isl (fst (configureWithWallet test_sdk test_config [Get_balance, Get_seqno]))"
proof -
  have toString: "TonWalletProvider_getAddress test_sdk
      \<lparr> wallet = \<lparr> wallet_workchain = 0, wallet_publicKey = [3], address = \<lparr> workChain = 0, hash = [3] \<rparr> \<rparr>,
        contract = test_contract, tonClient = test_client,
        keyPair = \<lparr> publicKey = [3], secretKey = [7] \<rparr>, network = Testnet, workchain = 0 \<rparr> = js ''EQ'' @ [3]"
    by (simp add: TonWalletProvider_getAddress_def test_sdk_def)
  from C5_address_is_deterministic
    [OF test_sdk_deterministic configureWithWallet_test_config [of "[]"]
        configureWithWallet_test_config [of "[Get_balance, Get_seqno]"] refl refl]
  show ?thesis
    by (simp add: configureWithWallet_test_config toString)
qed

end
